theory Spec2Isabelle
  imports Main
begin

section \<open>The Path of Exile API client (pathofexile/api.py)\<close>

text \<open>
  The module is Python 2 (it uses \<^verbatim>\<open>basestring\<close>): five functions that check their
  arguments, build an endpoint and a dictionary of query parameters, call
  \<^verbatim>\<open>requests.get\<close> and return \<^verbatim>\<open>r.json()\<close>. The arguments are dynamically typed,
  so the model has a type of Python values; exceptions are values of a sum type; the
  network is a function from requests to responses, and every model function returns,
  beside its result, the list of GET requests it issued.
\<close>

subsection \<open>Python values\<close>

text \<open>
  The values a caller can pass: \<^verbatim>\<open>None\<close>, booleans, integers (\<^verbatim>\<open>int\<close> and
  \<^verbatim>\<open>long\<close>, unbounded) and byte strings (\<^verbatim>\<open>str\<close>, what a string literal is in
  Python 2). Outside the model are \<^verbatim>\<open>unicode\<close> strings, the other instances of
  \<^verbatim>\<open>basestring\<close> (their code points need not fit a byte, and \<^verbatim>\<open>int\<close> reads them by the
  Unicode tables of white space and digits, not by the rules for \<^verbatim>\<open>str\<close> below), floats,
  containers and instances of user classes.
\<close>

datatype pyval = PNone | PBool bool | PInt int | PStr string

text \<open>\<^verbatim>\<open>isinstance(v, basestring)\<close>: of the values above, the \<^verbatim>\<open>str\<close> ones.\<close>

fun is_basestring :: "pyval \<Rightarrow> bool" where
  "is_basestring (PStr s) = True"
| "is_basestring v = False"

text \<open>\<^verbatim>\<open>a == b\<close>: booleans are integers (\<^verbatim>\<open>True == 1\<close>); values of unrelated types are unequal.\<close>

fun py_eq :: "pyval \<Rightarrow> pyval \<Rightarrow> bool" where
  "py_eq PNone PNone = True"
| "py_eq (PStr s) (PStr t) = (s = t)"
| "py_eq (PBool a) (PBool b) = (a = b)"
| "py_eq (PBool a) (PInt j) = ((if a then 1 else 0) = j)"
| "py_eq (PInt i) (PBool b) = (i = (if b then 1 else 0))"
| "py_eq (PInt i) (PInt j) = (i = j)"
| "py_eq v w = False"

text \<open>\<^verbatim>\<open>x in [y1, ..., yn]\<close>: some element is equal to \<^verbatim>\<open>x\<close>.\<close>

primrec py_in :: "pyval \<Rightarrow> pyval list \<Rightarrow> bool" where
  "py_in x [] = False"
| "py_in x (y # ys) = (py_eq x y \<or> py_in x ys)"

text \<open>
  Ordering against an integer literal, as CPython 2 orders values of different types:
  \<^verbatim>\<open>None\<close> is smaller than everything, numbers compare by value, and a number is smaller
  than a value of any other type. So \<^verbatim>\<open>None >= 0\<close> is false and \<^verbatim>\<open>'abc' >= 0\<close> is true.
\<close>

datatype cmp = LT | EQ | GT

definition int_cmp :: "int \<Rightarrow> int \<Rightarrow> cmp" where
  "int_cmp i j = (if i < j then LT else if i = j then EQ else GT)"

fun py_cmp_int :: "pyval \<Rightarrow> int \<Rightarrow> cmp" where
  "py_cmp_int PNone n = LT"
| "py_cmp_int (PBool b) n = int_cmp (if b then 1 else 0) n"
| "py_cmp_int (PInt i) n = int_cmp i n"
| "py_cmp_int (PStr s) n = GT"

definition py_ge :: "pyval \<Rightarrow> int \<Rightarrow> bool" where
  "py_ge v n = (py_cmp_int v n = EQ \<or> py_cmp_int v n = GT)"

definition py_gt :: "pyval \<Rightarrow> int \<Rightarrow> bool" where
  "py_gt v n = (py_cmp_int v n = GT)"

definition py_le :: "pyval \<Rightarrow> int \<Rightarrow> bool" where
  "py_le v n = (py_cmp_int v n = EQ \<or> py_cmp_int v n = LT)"

definition py_lt :: "pyval \<Rightarrow> int \<Rightarrow> bool" where
  "py_lt v n = (py_cmp_int v n = LT)"

subsection \<open>Formatting and parsing integers\<close>

text \<open>\<^verbatim>\<open>'%d' % n\<close>: the decimal digits of \<^verbatim>\<open>n\<close>, after a minus sign when it is negative.\<close>

definition digit_char :: "nat \<Rightarrow> char" where
  "digit_char d = ''0123456789'' ! d"

function show_nat :: "nat \<Rightarrow> string" where
  "show_nat n = (if n < 10 then [digit_char n] else show_nat (n div 10) @ [digit_char (n mod 10)])"
  by pat_completeness auto
termination
  by (relation "measure id") auto

declare show_nat.simps [simp del]

definition show_int :: "int \<Rightarrow> string" where
  "show_int i = (if i < 0 then CHR ''-'' # show_nat (nat (- i)) else show_nat (nat i))"

text \<open>
  \<^verbatim>\<open>int(v)\<close>. An integer is returned as it is and a boolean as 0 or 1; \<^verbatim>\<open>None\<close> raises
  TypeError. A \<^verbatim>\<open>str\<close> is read in base 10: white space (the six ASCII characters space,
  tab, line feed, vertical tab, form feed, carriage return), an optional sign, white
  space, one or more of the digits 0 to 9, white space; anything else raises ValueError.
  The model returns \<open>None\<close> where \<^verbatim>\<open>int\<close> raises.
\<close>

definition is_space :: "char \<Rightarrow> bool" where
  "is_space c = (c \<in> set [CHR '' '', CHR 0x09, CHR 0x0A, CHR 0x0B, CHR 0x0C, CHR 0x0D])"

definition digit_of :: "char \<Rightarrow> nat option" where
  "digit_of c = map_of (zip ''0123456789'' [0, 1, 2, 3, 4, 5, 6, 7, 8, 9]) c"

primrec digits_acc :: "string \<Rightarrow> nat \<Rightarrow> nat option" where
  "digits_acc [] acc = Some acc"
| "digits_acc (c # cs) acc =
     (case digit_of c of None \<Rightarrow> None | Some d \<Rightarrow> digits_acc cs (10 * acc + d))"

definition parse_digits :: "string \<Rightarrow> nat option" where
  "parse_digits s = (if s = [] then None else digits_acc s 0)"

definition strip :: "string \<Rightarrow> string" where
  "strip s = rev (dropWhile is_space (rev (dropWhile is_space s)))"

definition int_of_str :: "string \<Rightarrow> int option" where
  "int_of_str s =
     (case strip s of
        [] \<Rightarrow> None
      | c # cs \<Rightarrow>
          if c = CHR ''-'' then map_option (\<lambda>n. - int n) (parse_digits (dropWhile is_space cs))
          else if c = CHR ''+'' then map_option int (parse_digits (dropWhile is_space cs))
          else map_option int (parse_digits (c # cs)))"

fun py_int :: "pyval \<Rightarrow> int option" where
  "py_int PNone = None"
| "py_int (PBool b) = Some (if b then 1 else 0)"
| "py_int (PInt i) = Some i"
| "py_int (PStr s) = int_of_str s"

text \<open>\<^verbatim>\<open>'%s' % v\<close> for a value that is not a tuple: \<^verbatim>\<open>str(v)\<close>; a string is itself.\<close>

fun fmt_s :: "pyval \<Rightarrow> string" where
  "fmt_s PNone = ''None''"
| "fmt_s (PBool b) = (if b then ''True'' else ''False'')"
| "fmt_s (PInt i) = show_int i"
| "fmt_s (PStr s) = s"

subsection \<open>Exceptions\<close>

text \<open>
  The classes the module declares, with \<^verbatim>\<open>Exception\<close> itself and the two failures the
  \<^verbatim>\<open>requests\<close> library can raise here: \<^verbatim>\<open>requests.get\<close> failing (RequestException)
  and \<^verbatim>\<open>r.json()\<close> on a body that is not JSON (ValueError).
\<close>

datatype exn =
    Exception
  | InvalidParameterError
  | InvalidLeagueTypeError
  | InvalidSeasonError
  | InvalidCompactInfoError
  | InvalidLeagueLimitError
  | InvalidLeagueOffsetError
  | InvalidLeagueIdError
  | InvalidLadderInclusionError
  | InvalidLadderLimitError
  | InvalidLadderOffsetError
  | InvalidLeagueRuleIdError
  | InvalidLadderIdError
  | RateLimitExceededError
  | RequestException
  | ValueError

text \<open>The base class each \<^verbatim>\<open>class C(B)\<close> statement names.\<close>

fun base :: "exn \<Rightarrow> exn option" where
  "base Exception = None"
| "base InvalidParameterError = Some Exception"
| "base RateLimitExceededError = Some Exception"
| "base RequestException = Some Exception"
| "base ValueError = Some Exception"
| "base c = Some InvalidParameterError"

fun depth :: "exn \<Rightarrow> nat" where
  "depth c = (case base c of None \<Rightarrow> 0
              | Some b \<Rightarrow> (case base b of None \<Rightarrow> 1 | Some a \<Rightarrow> 2))"

lemma base_depth: "base c = Some b \<Longrightarrow> depth b < depth c"
  by (cases c) auto

text \<open>
  \<^verbatim>\<open>issubclass(c, d)\<close>: \<^verbatim>\<open>d\<close> is \<^verbatim>\<open>c\<close> or an ancestor of it. A handler
  \<^verbatim>\<open>except d:\<close> catches an exception of class \<^verbatim>\<open>c\<close> exactly then.
\<close>

function issubclass :: "exn \<Rightarrow> exn \<Rightarrow> bool" where
  "issubclass c d = (c = d \<or> (case base c of None \<Rightarrow> False | Some b \<Rightarrow> issubclass b d))"
  by pat_completeness auto
termination
  by (relation "measure (\<lambda>(c, d). depth c)") (auto dest: base_depth simp del: depth.simps)

declare issubclass.simps [simp del]

definition catches :: "exn \<Rightarrow> exn \<Rightarrow> bool" where
  "catches handler e = issubclass e handler"

subsection \<open>The transport\<close>

text \<open>
  A decoded JSON body, a response (\<^verbatim>\<open>status_code\<close> is an integer in \<^verbatim>\<open>requests\<close>;
  \<open>body\<close> is \<open>None\<close> when the body is not JSON), and a GET request: the endpoint and the
  \<^verbatim>\<open>params\<close> dictionary (\<open>None\<close> when \<^verbatim>\<open>requests.get\<close> is called without one).
\<close>

datatype json = JNull | JBool bool | JNum int | JStr string | JArr "json list"
  | JObj "(string \<times> json) list"

record response =
  status_code :: int
  body :: "json option"

record request =
  endpoint :: string
  params :: "(string \<rightharpoonup> pyval) option"

text \<open>The network: the response to a request, or \<open>None\<close> when \<^verbatim>\<open>requests.get\<close> raises.\<close>

type_synonym transport = "request \<Rightarrow> response option"

text \<open>The result of a call, or the exception it raised, and the GET requests issued.\<close>

type_synonym outcome = "(exn + json) \<times> request list"

definition raise :: "exn \<Rightarrow> outcome" where
  "raise e = (Inl e, [])"

text \<open>\<^verbatim>\<open>r.json()\<close>\<close>

definition json :: "response \<Rightarrow> exn + json" where
  "json r = (case body r of None \<Rightarrow> Inl ValueError | Some j \<Rightarrow> Inr j)"

text \<open>\<^verbatim>\<open>r = requests.get(...); return r.json()\<close>\<close>

definition get_json :: "transport \<Rightarrow> request \<Rightarrow> outcome" where
  "get_json net req =
     (case net req of None \<Rightarrow> (Inl RequestException, [req]) | Some r \<Rightarrow> (json r, [req]))"

subsection \<open>The five operations\<close>

definition get_leagues :: "transport \<Rightarrow> pyval \<Rightarrow> pyval \<Rightarrow> pyval \<Rightarrow> pyval \<Rightarrow> pyval \<Rightarrow> outcome" where
  "get_leagues net league_type season compact_info league_limit league_offset =
     (if \<not> py_in league_type [PStr ''all'', PStr ''main'', PStr ''season'', PStr ''event'']
      then raise InvalidLeagueTypeError
      else if py_eq league_type (PStr ''season'') \<and> \<not> is_basestring season
      then raise InvalidSeasonError
      else if \<not> py_in compact_info [PInt 0, PInt 1]
      then raise InvalidCompactInfoError
      else if \<not> (league_limit = PNone \<or> (py_ge league_limit 0 \<and> py_le league_limit 230))
      then raise InvalidLeagueLimitError
      else if \<not> py_ge league_offset 0
      then raise InvalidLeagueOffsetError
      else
        let endpoint = ''http://api.pathofexile.com/leagues'';
            params = [''type'' \<mapsto> league_type,
                      ''compact'' \<mapsto> compact_info,
                      ''offset'' \<mapsto> league_offset];
            params = (if season \<noteq> PNone then params(''season'' \<mapsto> season) else params);
            params = (if league_limit \<noteq> PNone then params(''limit'' \<mapsto> league_limit) else params)
        in get_json net \<lparr>endpoint = endpoint, params = Some params\<rparr>)"

definition get_league :: "transport \<Rightarrow> pyval \<Rightarrow> pyval \<Rightarrow> pyval \<Rightarrow> pyval \<Rightarrow> outcome" where
  "get_league net league_id ladder ladder_limit ladder_offset =
     (if \<not> is_basestring league_id
      then raise InvalidLeagueIdError
      else if \<not> py_in ladder [PInt 0, PInt 1]
      then raise InvalidLadderInclusionError
      else if \<not> py_gt ladder_limit 0 \<or> \<not> py_le ladder_limit 200
      then raise InvalidLadderLimitError
      else if \<not> py_ge ladder_offset 0 \<or> \<not> py_lt ladder_offset 15000
      then raise InvalidLadderOffsetError
      else
        let endpoint = ''http://api.pathofexile.com/leagues/'' @ fmt_s league_id;
            params = [''id'' \<mapsto> league_id,
                      ''ladder'' \<mapsto> ladder,
                      ''ladderLimit'' \<mapsto> ladder_limit,
                      ''ladderOffset'' \<mapsto> ladder_offset]
        in get_json net \<lparr>endpoint = endpoint, params = Some params\<rparr>)"

definition get_league_rules :: "transport \<Rightarrow> outcome" where
  "get_league_rules net =
     (let endpoint = ''http://api.pathofexile.com/league-rules''
      in get_json net \<lparr>endpoint = endpoint, params = None\<rparr>)"

text \<open>The bare \<^verbatim>\<open>except:\<close> turns every failure of \<^verbatim>\<open>int\<close> into InvalidLeagueRuleIdError.\<close>

definition get_league_rule :: "transport \<Rightarrow> pyval \<Rightarrow> outcome" where
  "get_league_rule net league_rule_id =
     (case py_int league_rule_id of
        None \<Rightarrow> raise InvalidLeagueRuleIdError
      | Some league_rule_id \<Rightarrow>
          let endpoint = ''http://api.pathofexile.com/league-rules/'' @ show_int league_rule_id
          in get_json net \<lparr>endpoint = endpoint, params = None\<rparr>)"

text \<open>
  The status test compares \<^verbatim>\<open>r.status_code\<close>, an integer, with the string \<^verbatim>\<open>'429'\<close>.
\<close>

definition get_ladder_segment :: "transport \<Rightarrow> pyval \<Rightarrow> pyval \<Rightarrow> pyval \<Rightarrow> outcome" where
  "get_ladder_segment net ladder_id ladder_limit ladder_offset =
     (if \<not> is_basestring ladder_id
      then raise InvalidLadderIdError
      else if \<not> py_gt ladder_limit 0 \<or> \<not> py_le ladder_limit 200
      then raise InvalidLadderLimitError
      else if \<not> py_ge ladder_offset 0 \<or> \<not> py_lt ladder_offset 15000
      then raise InvalidLadderOffsetError
      else
        let endpoint = ''http://api.pathofexile.com/ladders'';
            params = [''id'' \<mapsto> ladder_id, ''limit'' \<mapsto> ladder_limit, ''offset'' \<mapsto> ladder_offset];
            req = \<lparr>endpoint = endpoint, params = Some params\<rparr>
        in case net req of
             None \<Rightarrow> (Inl RequestException, [req])
           | Some r \<Rightarrow>
               if py_eq (PInt (status_code r)) (PStr ''429'')
               then (Inl RateLimitExceededError, [req])
               else (json r, [req]))"

text \<open>A server that answers every request with status 200 and an empty JSON array.\<close>

definition ok_server :: transport where
  "ok_server req = Some \<lparr>status_code = 200, body = Some (JArr [])\<rparr>"

text \<open>A response with status 429 and a JSON error object, and a server that always sends it.\<close>

definition throttled :: response where
  "throttled =
     \<lparr>status_code = 429,
      body = Some (JObj [(''error'', JObj [(''code'', JNum 3),
                                          (''message'', JStr ''Rate Limit Exceeded'')])])\<rparr>"

definition throttling_server :: transport where
  "throttling_server req = Some throttled"

text \<open>
  A call is rejected when it raises an exception that a handler
  \<^verbatim>\<open>except InvalidParameterError:\<close> catches; otherwise its arguments were accepted.
\<close>

definition rejected :: "outcome \<Rightarrow> bool" where
  "rejected out = (case fst out of Inl e \<Rightarrow> catches InvalidParameterError e | Inr j \<Rightarrow> False)"

section \<open>Properties\<close>

subsection \<open>Auxiliary facts\<close>

lemmas cmp_defs = py_ge_def py_gt_def py_le_def py_lt_def int_cmp_def

lemmas int_of_str_defs = int_of_str_def strip_def is_space_def parse_digits_def digit_of_def

lemma snd_get_json: "snd (get_json net req) = [req]"
  by (simp add: get_json_def split: option.split)

lemma fst_get_json:
  "fst (get_json net req) = (case net req of None \<Rightarrow> Inl RequestException | Some r \<Rightarrow> json r)"
  by (simp add: get_json_def split: option.split)

lemma json_cases: "json r = Inl ValueError \<or> (\<exists>j. json r = Inr j)"
  by (simp add: json_def split: option.split)

lemma fst_get_json_no_param_error:
  "base e = Some InvalidParameterError \<Longrightarrow> fst (get_json net req) \<noteq> Inl e"
  using json_cases [of "the (net req)"]
  by (auto simp: fst_get_json split: option.split)

lemma not_rejected_get_json: "\<not> rejected (get_json net req)"
  using json_cases [of "the (net req)"]
  by (auto simp: rejected_def fst_get_json catches_def issubclass.simps split: option.split)

lemma rejected_raise: "rejected (raise e) = catches InvalidParameterError e"
  by (simp add: rejected_def raise_def)

lemma fst_raise: "fst (raise e) = Inl e"
  by (simp add: raise_def)

lemma snd_raise: "snd (raise e) = []"
  by (simp add: raise_def)

lemma catches_per_field:
  "base e = Some InvalidParameterError \<Longrightarrow> catches InvalidParameterError e"
  by (simp add: catches_def issubclass.simps [of e] issubclass.simps [of InvalidParameterError])

lemma get_ladder_segment_valid:
  assumes "is_basestring ladder_id" and "py_gt ladder_limit 0" and "py_le ladder_limit 200"
    and "py_ge ladder_offset 0" and "py_lt ladder_offset 15000"
  shows "get_ladder_segment net ladder_id ladder_limit ladder_offset
           = get_json net \<lparr>endpoint = ''http://api.pathofexile.com/ladders'',
                           params = Some [''id'' \<mapsto> ladder_id, ''limit'' \<mapsto> ladder_limit,
                                          ''offset'' \<mapsto> ladder_offset]\<rparr>"
  using assms
  by (simp add: get_ladder_segment_def get_json_def split: option.split)

subsection \<open>Reading back a formatted integer\<close>

text \<open>\<^verbatim>\<open>int('%d' % i) == i\<close>: the reader of \<^verbatim>\<open>int\<close> inverts the writer of \<^verbatim>\<open>%d\<close>.\<close>

lemma digit_of_digit_char: "d < 10 \<Longrightarrow> digit_of (digit_char d) = Some d"
proof -
  assume "d < 10"
  then have "d \<in> {0, 1, 2, 3, 4, 5, 6, 7, 8, 9}"
    by auto
  then show ?thesis
    by (auto simp: digit_of_def digit_char_def)
qed

lemma digits_acc_append:
  "digits_acc (xs @ ys) acc
     = (case digits_acc xs acc of None \<Rightarrow> None | Some a \<Rightarrow> digits_acc ys a)"
  by (induction xs arbitrary: acc) (auto split: option.split)

lemma digits_acc_show_nat: "digits_acc (show_nat n) 0 = Some n"
proof (induction n rule: show_nat.induct)
  case (1 n)
  show ?case
  proof (cases "n < 10")
    case True
    then show ?thesis
      by (simp add: show_nat.simps [of n] digit_of_digit_char)
  next
    case False
    with 1 have "digits_acc (show_nat (n div 10)) 0 = Some (n div 10)"
      by simp
    moreover have "n mod 10 < 10"
      by simp
    ultimately show ?thesis
      using False
      by (simp add: show_nat.simps [of n] digits_acc_append digit_of_digit_char)
  qed
qed

lemma digit_char_plain:
  "d < 10 \<Longrightarrow> \<not> is_space (digit_char d) \<and> digit_char d \<noteq> CHR ''-'' \<and> digit_char d \<noteq> CHR ''+''"
proof -
  assume "d < 10"
  then have "d \<in> {0, 1, 2, 3, 4, 5, 6, 7, 8, 9}"
    by auto
  then show ?thesis
    by (auto simp: is_space_def digit_char_def)
qed

lemma show_nat_shape:
  "show_nat n \<noteq> [] \<and> \<not> is_space (hd (show_nat n)) \<and> \<not> is_space (last (show_nat n))
   \<and> hd (show_nat n) \<noteq> CHR ''-'' \<and> hd (show_nat n) \<noteq> CHR ''+''"
proof (induction n rule: show_nat.induct)
  case (1 n)
  show ?case
  proof (cases "n < 10")
    case True
    then show ?thesis
      using digit_char_plain [of n] by (simp add: show_nat.simps [of n])
  next
    case False
    with 1 show ?thesis
      using digit_char_plain [of "n mod 10"] by (simp add: show_nat.simps [of n])
  qed
qed

lemma strip_plain: "xs \<noteq> [] \<Longrightarrow> \<not> is_space (hd xs) \<Longrightarrow> \<not> is_space (last xs) \<Longrightarrow> strip xs = xs"
proof -
  assume nonempty: "xs \<noteq> []" and front: "\<not> is_space (hd xs)" and rear: "\<not> is_space (last xs)"
  have "dropWhile is_space xs = xs"
    using nonempty front by (cases xs) auto
  moreover have "dropWhile is_space (rev xs) = rev xs"
    using nonempty rear by (cases "rev xs") (auto simp: hd_rev [symmetric])
  ultimately show ?thesis
    by (simp add: strip_def)
qed

lemma int_of_str_show_int: "int_of_str (show_int i) = Some i"
proof (cases "i < 0")
  case False
  obtain c cs where cs: "show_nat (nat i) = c # cs"
    using show_nat_shape [of "nat i"] by (cases "show_nat (nat i)") auto
  have "strip (show_nat (nat i)) = show_nat (nat i)"
    using show_nat_shape [of "nat i"] by (simp add: strip_plain)
  moreover have "parse_digits (show_nat (nat i)) = Some (nat i)"
    using show_nat_shape [of "nat i"] by (simp add: parse_digits_def digits_acc_show_nat)
  ultimately show ?thesis
    using False show_nat_shape [of "nat i"] cs
    by (simp add: int_of_str_def show_int_def)
next
  case True
  have shape: "show_nat (nat (- i)) \<noteq> [] \<and> \<not> is_space (hd (show_nat (nat (- i))))
      \<and> \<not> is_space (last (show_nat (nat (- i))))"
    using show_nat_shape [of "nat (- i)"] by simp
  have "strip (CHR ''-'' # show_nat (nat (- i))) = CHR ''-'' # show_nat (nat (- i))"
    using shape by (intro strip_plain) (simp_all add: is_space_def)
  moreover have "dropWhile is_space (show_nat (nat (- i))) = show_nat (nat (- i))"
    using shape by (cases "show_nat (nat (- i))") auto
  moreover have "parse_digits (show_nat (nat (- i))) = Some (nat (- i))"
    using shape by (simp add: parse_digits_def digits_acc_show_nat)
  ultimately show ?thesis
    using True by (simp add: int_of_str_def show_int_def)
qed

subsection \<open>Validation in \<^verbatim>\<open>get_leagues\<close>\<close>

text \<open>
  C8. Whenever the league type is none of \<^verbatim>\<open>'all'\<close>, \<^verbatim>\<open>'main'\<close>, \<^verbatim>\<open>'season'\<close>,
  \<^verbatim>\<open>'event'\<close>, \<^verbatim>\<open>get_leagues\<close> raises InvalidLeagueTypeError and has issued no GET
  request, whatever the other arguments and the network are.
\<close>

theorem get_leagues_bad_type:
  assumes "\<not> py_in league_type [PStr ''all'', PStr ''main'', PStr ''season'', PStr ''event'']"
  shows "get_leagues net league_type season compact_info league_limit league_offset
           = (Inl InvalidLeagueTypeError, [])"
  using assms by (simp add: get_leagues_def raise_def)

theorem get_leagues_bad_type_witness:
  "\<not> py_in (PStr ''race'') [PStr ''all'', PStr ''main'', PStr ''season'', PStr ''event'']
   \<and> get_leagues ok_server (PStr ''race'') PNone (PInt 0) PNone (PInt 0)
       = (Inl InvalidLeagueTypeError, [])"
  using get_leagues_bad_type [of "PStr ''race''" ok_server PNone "PInt 0" PNone "PInt 0"]
  by simp

text \<open>
  C2, against the claim. With \<^verbatim>\<open>league_type = 'season'\<close> and the empty string as season
  nothing is raised: the empty string is an instance of \<^verbatim>\<open>basestring\<close>, so the call goes
  to the network and returns the decoded body.
\<close>

theorem get_leagues_empty_season_accepted:
  "fst (get_leagues ok_server (PStr ''season'') (PStr '''') (PInt 0) PNone (PInt 0)) = Inr (JArr [])
   \<and> map endpoint (snd (get_leagues ok_server (PStr ''season'') (PStr '''') (PInt 0) PNone (PInt 0)))
       = [''http://api.pathofexile.com/leagues'']"
  by (simp add: get_leagues_def get_json_def ok_server_def json_def cmp_defs)

text \<open>
  C2, amended. With \<^verbatim>\<open>league_type = 'season'\<close>, a season that is not a string (\<^verbatim>\<open>None\<close>
  in particular) raises InvalidSeasonError and no GET request is issued, whatever the
  other arguments are; a season that is a string, the empty one included, never raises
  InvalidSeasonError.
\<close>

theorem get_leagues_season_check:
  "(\<not> is_basestring season \<longrightarrow>
      get_leagues net (PStr ''season'') season compact_info league_limit league_offset
        = (Inl InvalidSeasonError, []))
   \<and> fst (get_leagues net (PStr ''season'') (PStr s) compact_info league_limit league_offset)
       \<noteq> Inl InvalidSeasonError"
  by (auto simp: get_leagues_def raise_def fst_get_json json_def Let_def split: option.split)

theorem get_leagues_season_check_witness:
  "\<not> is_basestring PNone
   \<and> get_leagues ok_server (PStr ''season'') PNone (PInt 0) PNone (PInt 0)
       = (Inl InvalidSeasonError, [])
   \<and> fst (get_leagues ok_server (PStr ''season'') (PStr '''') (PInt 0) PNone (PInt 0))
       \<noteq> Inl InvalidSeasonError"
  using get_leagues_season_check [of PNone ok_server "PInt 0" PNone "PInt 0" "''''"]
  by simp

text \<open>
  C6. In a call of \<^verbatim>\<open>get_leagues\<close> an integer limit below 0 or above 230 is always
  rejected with no GET request issued, and the exception is InvalidLeagueLimitError
  whenever the three checks that come before the one on the limit pass (a valid league
  type, a string season when the type is \<^verbatim>\<open>'season'\<close>, \<^verbatim>\<open>compact_info\<close> 0 or 1). The
  limits 0, 230 and \<^verbatim>\<open>None\<close> never raise InvalidLeagueLimitError, and with those checks
  passed and a valid offset the call is accepted and issues its one request.
\<close>

theorem get_leagues_limit_bounds:
  assumes "py_in league_type [PStr ''all'', PStr ''main'', PStr ''season'', PStr ''event'']"
    and "\<not> (py_eq league_type (PStr ''season'') \<and> \<not> is_basestring season)"
    and "py_in compact_info [PInt 0, PInt 1]"
  shows "(n < 0 \<or> 230 < n \<longrightarrow>
           get_leagues net league_type season compact_info (PInt n) league_offset
             = (Inl InvalidLeagueLimitError, [])
           \<and> rejected (get_leagues net t s c (PInt n) off)
           \<and> snd (get_leagues net t s c (PInt n) off) = [])
       \<and> (l = PInt 0 \<or> l = PInt 230 \<or> l = PNone \<longrightarrow>
           fst (get_leagues net t s c l off) \<noteq> Inl InvalidLeagueLimitError
           \<and> (py_ge league_offset 0 \<longrightarrow>
                \<not> rejected (get_leagues net league_type season compact_info l league_offset)
                \<and> length (snd (get_leagues net league_type season compact_info l league_offset)) = 1))"
proof (intro conjI impI)
  assume "n < 0 \<or> 230 < n"
  with assms show "get_leagues net league_type season compact_info (PInt n) league_offset
             = (Inl InvalidLeagueLimitError, [])"
    by (auto simp add: get_leagues_def raise_def cmp_defs simp del: py_in.simps)
next
  assume "n < 0 \<or> 230 < n"
  then show "rejected (get_leagues net t s c (PInt n) off)"
    by (auto simp add: get_leagues_def rejected_raise catches_per_field cmp_defs
          simp del: py_in.simps)
next
  assume "n < 0 \<or> 230 < n"
  then show "snd (get_leagues net t s c (PInt n) off) = []"
    by (auto simp add: get_leagues_def snd_raise cmp_defs simp del: py_in.simps)
next
  assume "l = PInt 0 \<or> l = PInt 230 \<or> l = PNone"
  then show "fst (get_leagues net t s c l off) \<noteq> Inl InvalidLeagueLimitError"
    by (auto simp add: get_leagues_def fst_raise fst_get_json_no_param_error cmp_defs Let_def
          simp del: py_in.simps)
next
  assume "l = PInt 0 \<or> l = PInt 230 \<or> l = PNone" and "py_ge league_offset 0"
  with assms show "\<not> rejected (get_leagues net league_type season compact_info l league_offset)"
    by (auto simp add: get_leagues_def not_rejected_get_json cmp_defs Let_def
          simp del: py_in.simps)
next
  assume "l = PInt 0 \<or> l = PInt 230 \<or> l = PNone" and "py_ge league_offset 0"
  with assms show "length (snd (get_leagues net league_type season compact_info l league_offset)) = 1"
    by (auto simp add: get_leagues_def snd_get_json cmp_defs Let_def
          simp del: py_in.simps)
qed

theorem get_leagues_limit_bounds_witness:
  "py_in (PStr ''all'') [PStr ''all'', PStr ''main'', PStr ''season'', PStr ''event'']
   \<and> \<not> (py_eq (PStr ''all'') (PStr ''season'') \<and> \<not> is_basestring PNone)
   \<and> py_in (PInt 0) [PInt 0, PInt 1]
   \<and> py_ge (PInt 0) 0
   \<and> get_leagues ok_server (PStr ''all'') PNone (PInt 0) (PInt 231) (PInt 0)
     = (Inl InvalidLeagueLimitError, [])
   \<and> get_leagues ok_server (PStr ''all'') PNone (PInt 0) (PInt (- 1)) (PInt 0)
     = (Inl InvalidLeagueLimitError, [])
   \<and> \<not> rejected (get_leagues ok_server (PStr ''all'') PNone (PInt 0) (PInt 0) (PInt 0))
   \<and> \<not> rejected (get_leagues ok_server (PStr ''all'') PNone (PInt 0) (PInt 230) (PInt 0))
   \<and> \<not> rejected (get_leagues ok_server (PStr ''all'') PNone (PInt 0) PNone (PInt 0))"
proof -
  have t: "py_in (PStr ''all'') [PStr ''all'', PStr ''main'', PStr ''season'', PStr ''event'']"
    by simp
  have s: "\<not> (py_eq (PStr ''all'') (PStr ''season'') \<and> \<not> is_basestring PNone)"
    by simp
  have c: "py_in (PInt 0) [PInt 0, PInt 1]"
    by simp
  have off: "py_ge (PInt 0) 0"
    by (simp add: cmp_defs)
  show ?thesis
    using get_leagues_limit_bounds [OF t s c, where n = 231 and net = ok_server
        and league_offset = "PInt 0" and l = "PInt 0"]
      get_leagues_limit_bounds [OF t s c, where n = "- 1" and net = ok_server
        and league_offset = "PInt 0" and l = "PInt 230"]
      get_leagues_limit_bounds [OF t s c, where n = 0 and net = ok_server
        and league_offset = "PInt 0" and l = PNone]
      t s c off
    by simp
qed



subsection \<open>Validation in \<^verbatim>\<open>get_league\<close> and \<^verbatim>\<open>get_ladder_segment\<close>\<close>

text \<open>
  C3, against the claim. \<^verbatim>\<open>get_league\<close> with the empty string as league id raises
  nothing: it requests \<^verbatim>\<open>http://api.pathofexile.com/leagues/\<close> and returns the decoded
  body.
\<close>

theorem get_league_empty_id_accepted:
  "fst (get_league ok_server (PStr '''') (PInt 0) (PInt 20) (PInt 0)) = Inr (JArr [])
   \<and> map endpoint (snd (get_league ok_server (PStr '''') (PInt 0) (PInt 20) (PInt 0)))
       = [''http://api.pathofexile.com/leagues/'']"
  by (simp add: get_league_def get_json_def ok_server_def json_def cmp_defs)

text \<open>
  C3, amended. A league id that is not a string raises InvalidLeagueIdError and no GET
  request is issued. Every string league id, the empty one included, with
  \<^verbatim>\<open>ladder = 1\<close>, \<^verbatim>\<open>ladder_limit = 200\<close> and \<^verbatim>\<open>ladder_offset = 14999\<close> is accepted, and
  the one request issued goes to the league's endpoint with these four parameters.
\<close>

theorem get_league_id_check:
  "(\<not> is_basestring league_id \<longrightarrow>
      get_league net league_id ladder ladder_limit ladder_offset = (Inl InvalidLeagueIdError, []))
   \<and> \<not> rejected (get_league net (PStr s) (PInt 1) (PInt 200) (PInt 14999))
   \<and> snd (get_league net (PStr s) (PInt 1) (PInt 200) (PInt 14999))
       = [\<lparr>endpoint = ''http://api.pathofexile.com/leagues/'' @ s,
           params = Some [''id'' \<mapsto> PStr s, ''ladder'' \<mapsto> PInt 1,
                          ''ladderLimit'' \<mapsto> PInt 200, ''ladderOffset'' \<mapsto> PInt 14999]\<rparr>]"
  by (simp add: get_league_def raise_def cmp_defs not_rejected_get_json snd_get_json)

theorem get_league_id_check_witness:
  "\<not> is_basestring (PInt 7)
   \<and> get_league ok_server (PInt 7) (PInt 0) (PInt 20) (PInt 0) = (Inl InvalidLeagueIdError, [])
   \<and> \<not> rejected (get_league ok_server (PStr ''Standard'') (PInt 1) (PInt 200) (PInt 14999))
   \<and> map endpoint (snd (get_league ok_server (PStr ''Standard'') (PInt 1) (PInt 200) (PInt 14999)))
       = [''http://api.pathofexile.com/leagues/Standard'']"
  using get_league_id_check [of "PInt 7" ok_server "PInt 0" "PInt 20" "PInt 0" "''Standard''"]
  by simp

text \<open>
  C7. In \<^verbatim>\<open>get_league\<close> and in \<^verbatim>\<open>get_ladder_segment\<close> an integer ladder offset of 15000
  or more is always rejected with no GET request issued, and the exception is
  InvalidLadderOffsetError whenever the checks that come before the one on the offset
  pass (a string id, \<^verbatim>\<open>ladder\<close> 0 or 1 in \<^verbatim>\<open>get_league\<close>, a ladder limit in (0, 200]).
  With those checks passed the offsets 0 and 14999 are accepted: the bound 15000 is
  exclusive.
\<close>

theorem ladder_offset_bounds:
  assumes "is_basestring ident" and "py_in ladder [PInt 0, PInt 1]"
    and "py_gt ladder_limit 0" and "py_le ladder_limit 200"
  shows "(15000 \<le> n \<longrightarrow>
            get_league net ident ladder ladder_limit (PInt n) = (Inl InvalidLadderOffsetError, [])
          \<and> get_ladder_segment net ident ladder_limit (PInt n) = (Inl InvalidLadderOffsetError, [])
          \<and> rejected (get_league net i b k (PInt n)) \<and> snd (get_league net i b k (PInt n)) = []
          \<and> rejected (get_ladder_segment net i k (PInt n))
          \<and> snd (get_ladder_segment net i k (PInt n)) = [])
       \<and> \<not> rejected (get_league net ident ladder ladder_limit (PInt 0))
       \<and> \<not> rejected (get_ladder_segment net ident ladder_limit (PInt 0))
       \<and> \<not> rejected (get_league net ident ladder ladder_limit (PInt 14999))
       \<and> \<not> rejected (get_ladder_segment net ident ladder_limit (PInt 14999))"
proof -
  have raised: "get_league net ident ladder ladder_limit (PInt n) = (Inl InvalidLadderOffsetError, [])
       \<and> get_ladder_segment net ident ladder_limit (PInt n) = (Inl InvalidLadderOffsetError, [])"
    if "15000 \<le> n"
    using assms that
    by (simp add: get_league_def get_ladder_segment_def raise_def py_ge_def py_lt_def int_cmp_def
          del: py_in.simps)
  have always_league:
    "rejected (get_league net i b k (PInt n)) \<and> snd (get_league net i b k (PInt n)) = []"
    if "15000 \<le> n"
    using that
    by (simp add: get_league_def rejected_raise snd_raise catches_per_field py_ge_def py_lt_def
          int_cmp_def del: py_in.simps)
  have always_segment:
    "rejected (get_ladder_segment net i k (PInt n)) \<and> snd (get_ladder_segment net i k (PInt n)) = []"
    if "15000 \<le> n"
    using that
    by (simp add: get_ladder_segment_def rejected_raise snd_raise catches_per_field py_ge_def
          py_lt_def int_cmp_def)
  have league: "\<not> rejected (get_league net ident ladder ladder_limit (PInt m))"
    if "0 \<le> m" and "m < 15000" for m
    using assms that
    by (simp add: get_league_def not_rejected_get_json py_ge_def py_lt_def int_cmp_def
          del: py_in.simps)
  have segment: "\<not> rejected (get_ladder_segment net ident ladder_limit (PInt m))"
    if "0 \<le> m" and "m < 15000" for m
    using assms that
    by (simp add: get_ladder_segment_valid not_rejected_get_json py_ge_def py_lt_def int_cmp_def)
  show ?thesis
    using raised always_league always_segment
      league [of 0] league [of 14999] segment [of 0] segment [of 14999]
    by simp
qed

theorem ladder_offset_bounds_witness:
  "is_basestring (PStr ''Standard'')
   \<and> py_in (PInt 1) [PInt 0, PInt 1]
   \<and> py_gt (PInt 20) 0
   \<and> py_le (PInt 20) 200
   \<and> get_league ok_server (PStr ''Standard'') (PInt 1) (PInt 20) (PInt 15000)
     = (Inl InvalidLadderOffsetError, [])
   \<and> get_ladder_segment ok_server (PStr ''Standard'') (PInt 20) (PInt 15000)
     = (Inl InvalidLadderOffsetError, [])
   \<and> \<not> rejected (get_league ok_server (PStr ''Standard'') (PInt 1) (PInt 20) (PInt 0))
   \<and> \<not> rejected (get_ladder_segment ok_server (PStr ''Standard'') (PInt 20) (PInt 0))"
proof -
  have i: "is_basestring (PStr ''Standard'')"
    by simp
  have l: "py_in (PInt 1) [PInt 0, PInt 1]"
    by simp
  have lo: "py_gt (PInt 20) 0"
    by (simp add: cmp_defs)
  have hi: "py_le (PInt 20) 200"
    by (simp add: cmp_defs)
  show ?thesis
    using ladder_offset_bounds [OF i l lo hi, where n = 15000 and net = ok_server] i l lo hi
    by simp
qed

subsection \<open>Coercion in \<^verbatim>\<open>get_league_rule\<close>\<close>

text \<open>
  C5. When \<^verbatim>\<open>int\<close> fails on the argument, \<^verbatim>\<open>get_league_rule\<close> raises
  InvalidLeagueRuleIdError (not the TypeError or ValueError of \<^verbatim>\<open>int\<close>) and issues no GET
  request; \<^verbatim>\<open>'abc'\<close> is such an argument. When \<^verbatim>\<open>int\<close> returns \<open>n\<close>, the call is not
  rejected: it issues exactly one request, to the league-rules endpoint followed by the
  decimal digits of \<open>n\<close> and with no query parameters, its outcome is that of this
  request, and when the server answers it with a JSON body the call returns that body.
  \<^verbatim>\<open>'42'\<close> is coerced to 42, requests \<^verbatim>\<open>.../league-rules/42\<close> and returns what the
  server sends; so does the decimal numeral of every integer.
\<close>

theorem get_league_rule_coercion:
  "(py_int v = None \<longrightarrow> get_league_rule net v = (Inl InvalidLeagueRuleIdError, []))
   \<and> get_league_rule net (PStr ''abc'') = (Inl InvalidLeagueRuleIdError, [])
   \<and> (py_int v = Some n \<longrightarrow>
        get_league_rule net v
          = get_json net \<lparr>endpoint = ''http://api.pathofexile.com/league-rules/'' @ show_int n,
                          params = None\<rparr>
        \<and> \<not> rejected (get_league_rule net v)
        \<and> fst (get_league_rule net v) \<noteq> Inl InvalidLeagueRuleIdError
        \<and> snd (get_league_rule net v)
            = [\<lparr>endpoint = ''http://api.pathofexile.com/league-rules/'' @ show_int n,
                params = None\<rparr>])
   \<and> (py_int v = Some n
        \<and> net \<lparr>endpoint = ''http://api.pathofexile.com/league-rules/'' @ show_int n,
                params = None\<rparr> = Some r
        \<and> body r = Some j \<longrightarrow>
        get_league_rule net v
          = (Inr j, [\<lparr>endpoint = ''http://api.pathofexile.com/league-rules/'' @ show_int n,
                      params = None\<rparr>]))
   \<and> py_int (PStr ''42'') = Some 42
   \<and> \<not> rejected (get_league_rule net (PStr ''42''))
   \<and> snd (get_league_rule net (PStr ''42''))
       = [\<lparr>endpoint = ''http://api.pathofexile.com/league-rules/42'', params = None\<rparr>]
   \<and> get_league_rule ok_server (PStr ''42'')
       = (Inr (JArr []),
          [\<lparr>endpoint = ''http://api.pathofexile.com/league-rules/42'', params = None\<rparr>])
   \<and> py_int (PStr (show_int i)) = Some i
   \<and> get_league_rule net (PStr (show_int i))
       = get_json net \<lparr>endpoint = ''http://api.pathofexile.com/league-rules/'' @ show_int i,
                       params = None\<rparr>"
proof -
  have numeral: "py_int (PStr (show_int i)) = Some i"
    by (simp add: int_of_str_show_int)
  have abc: "py_int (PStr ''abc'') = None"
    by (simp add: int_of_str_defs)
  have n42: "py_int (PStr ''42'') = Some 42"
    by (simp add: int_of_str_defs)
  have s42: "show_int 42 = ''42''"
    by (simp add: show_int_def show_nat.simps digit_char_def)
  have coerced: "get_league_rule net' w
      = get_json net' \<lparr>endpoint = ''http://api.pathofexile.com/league-rules/'' @ show_int m,
                       params = None\<rparr>"
    if "py_int w = Some m" for net' w m
    using that by (simp add: get_league_rule_def)
  have failed: "get_league_rule net' w = (Inl InvalidLeagueRuleIdError, [])"
    if "py_int w = None" for net' w
    using that by (simp add: get_league_rule_def raise_def)
  have served: "get_json net' req = (Inr j', [req])"
    if "net' req = Some r'" and "body r' = Some j'" for net' req r' j'
    using that by (simp add: get_json_def json_def)
  have no_rule_error: "fst (get_json net' req) \<noteq> Inl InvalidLeagueRuleIdError" for net' req
    by (rule fst_get_json_no_param_error) simp
  have ok: "get_json ok_server req = (Inr (JArr []), [req])" for req
    by (rule served [of _ _ "\<lparr>status_code = 200, body = Some (JArr [])\<rparr>"])
      (simp_all add: ok_server_def)
  show ?thesis
    using failed [of v net] failed [OF abc, of net] coerced [of v n net]
      coerced [OF n42, of net] coerced [OF n42, of ok_server]
      served [of net _ r j] no_rule_error [of net] ok coerced [OF numeral, of net]
    by (simp add: n42 s42 numeral not_rejected_get_json snd_get_json del: py_int.simps)
qed

theorem get_league_rule_coercion_witness:
  "py_int PNone = None
   \<and> get_league_rule ok_server PNone = (Inl InvalidLeagueRuleIdError, [])
   \<and> py_int (PBool True) = Some 1
   \<and> ok_server \<lparr>endpoint = ''http://api.pathofexile.com/league-rules/'' @ show_int 1,
                  params = None\<rparr> = Some \<lparr>status_code = 200, body = Some (JArr [])\<rparr>
   \<and> body \<lparr>status_code = 200, body = Some (JArr [])\<rparr> = Some (JArr [])
   \<and> \<not> rejected (get_league_rule ok_server (PBool True))
   \<and> get_league_rule ok_server (PBool True)
       = (Inr (JArr []),
          [\<lparr>endpoint = ''http://api.pathofexile.com/league-rules/1'', params = None\<rparr>])"
  using get_league_rule_coercion [of PNone ok_server 0]
    get_league_rule_coercion [of "PBool True" ok_server 1
      "\<lparr>status_code = 200, body = Some (JArr [])\<rparr>" "JArr []"]
  by (simp add: ok_server_def show_int_def show_nat.simps digit_char_def get_json_def json_def
        rejected_def)

subsection \<open>The query parameters\<close>



subsection \<open>The status test of \<^verbatim>\<open>get_ladder_segment\<close>\<close>

text \<open>
  C1. \<^verbatim>\<open>get_ladder_segment\<close> never raises RateLimitExceededError, whatever the network
  answers: the status code is an integer and the test compares it with a string. With
  valid arguments the result is the decoded body of the response whatever its status, so
  at a response with status 429 the call returns the decoded body of that response.
\<close>

theorem get_ladder_segment_status_429:
  "fst (get_ladder_segment net ladder_id ladder_limit ladder_offset) \<noteq> Inl RateLimitExceededError
   \<and> (is_basestring ladder_id \<and> py_gt ladder_limit 0 \<and> py_le ladder_limit 200
        \<and> py_ge ladder_offset 0 \<and> py_lt ladder_offset 15000
        \<and> net \<lparr>endpoint = ''http://api.pathofexile.com/ladders'',
                params = Some [''id'' \<mapsto> ladder_id, ''limit'' \<mapsto> ladder_limit,
                               ''offset'' \<mapsto> ladder_offset]\<rparr> = Some r
      \<longrightarrow> fst (get_ladder_segment net ladder_id ladder_limit ladder_offset) = json r)
   \<and> fst (get_ladder_segment throttling_server (PStr ''Standard'') (PInt 20) (PInt 0))
       = Inr (JObj [(''error'', JObj [(''code'', JNum 3),
                                      (''message'', JStr ''Rate Limit Exceeded'')])])"
proof (intro conjI impI)
  show "fst (get_ladder_segment net ladder_id ladder_limit ladder_offset)
          \<noteq> Inl RateLimitExceededError"
    by (auto simp: get_ladder_segment_def raise_def json_def Let_def split: option.split)
next
  assume "is_basestring ladder_id \<and> py_gt ladder_limit 0 \<and> py_le ladder_limit 200
        \<and> py_ge ladder_offset 0 \<and> py_lt ladder_offset 15000
        \<and> net \<lparr>endpoint = ''http://api.pathofexile.com/ladders'',
                params = Some [''id'' \<mapsto> ladder_id, ''limit'' \<mapsto> ladder_limit,
                               ''offset'' \<mapsto> ladder_offset]\<rparr> = Some r"
  then show "fst (get_ladder_segment net ladder_id ladder_limit ladder_offset) = json r"
    by (simp add: get_ladder_segment_valid fst_get_json)
next
  show "fst (get_ladder_segment throttling_server (PStr ''Standard'') (PInt 20) (PInt 0))
          = Inr (JObj [(''error'', JObj [(''code'', JNum 3),
                                         (''message'', JStr ''Rate Limit Exceeded'')])])"
    by (simp add: get_ladder_segment_def throttling_server_def throttled_def json_def cmp_defs)
qed

theorem get_ladder_segment_status_429_witness:
  "status_code throttled = 429
   \<and> throttling_server \<lparr>endpoint = ''http://api.pathofexile.com/ladders'',
                         params = Some [''id'' \<mapsto> PStr ''Hardcore'', ''limit'' \<mapsto> PInt 200,
                                        ''offset'' \<mapsto> PInt 14999]\<rparr> = Some throttled
   \<and> fst (get_ladder_segment throttling_server (PStr ''Hardcore'') (PInt 200) (PInt 14999))
       = json throttled
   \<and> fst (get_ladder_segment throttling_server (PStr ''Hardcore'') (PInt 200) (PInt 14999))
       \<noteq> Inl RateLimitExceededError"
  using get_ladder_segment_status_429 [of throttling_server "PStr ''Hardcore''" "PInt 200"
      "PInt 14999" throttled]
  by (simp add: cmp_defs throttling_server_def throttled_def json_def)

subsection \<open>The exception classes\<close>

text \<open>
  C9. A handler \<^verbatim>\<open>except InvalidParameterError:\<close> does not catch RateLimitExceededError,
  the error \<^verbatim>\<open>get_ladder_segment\<close> raises under its status test, and it catches each of
  the eleven per-field errors: every one of them is a subclass of InvalidParameterError.
\<close>

theorem rate_limit_error_outside_family:
  "\<not> catches InvalidParameterError RateLimitExceededError
   \<and> catches InvalidParameterError InvalidLeagueTypeError
   \<and> catches InvalidParameterError InvalidSeasonError
   \<and> catches InvalidParameterError InvalidCompactInfoError
   \<and> catches InvalidParameterError InvalidLeagueLimitError
   \<and> catches InvalidParameterError InvalidLeagueOffsetError
   \<and> catches InvalidParameterError InvalidLeagueIdError
   \<and> catches InvalidParameterError InvalidLadderInclusionError
   \<and> catches InvalidParameterError InvalidLadderLimitError
   \<and> catches InvalidParameterError InvalidLadderOffsetError
   \<and> catches InvalidParameterError InvalidLeagueRuleIdError
   \<and> catches InvalidParameterError InvalidLadderIdError"
  by (simp add: catches_per_field) (simp add: catches_def issubclass.simps)

theorem rate_limit_error_outside_family_witness:
  "\<not> catches InvalidParameterError RateLimitExceededError
   \<and> catches InvalidParameterError InvalidLadderOffsetError"
  using rate_limit_error_outside_family by simp

end
